theory Spec2Isabelle
  imports Main "HOL-Library.Word"
begin

unbundle bit_operations_syntax

section \<open>The webhook notification service (src/webhook/index.ts)\<close>

text \<open>
  A shallow embedding of the class \<open>WebhookService\<close>.  JavaScript strings are modelled
  by their UTF-8 bytes (\<open>string\<close>), dates by milliseconds since the epoch (\<open>nat\<close>),
  the two \<open>Map\<close>s by insertion-ordered association lists, thrown exceptions by the left
  summand of a sum type.
\<close>

subsection \<open>Exceptions\<close>

datatype error =
    Error string         \<comment> \<open>\<open>new Error(message)\<close>\<close>
  | RangeError string    \<comment> \<open>thrown by \<open>crypto.timingSafeEqual\<close>\<close>

subsection \<open>The Node library functions behind the signature\<close>

type_synonym byte = "8 word"

text \<open>\<open>Buffer.from(s)\<close> and the implicit conversion of a string key or message: the UTF-8
  bytes of the string.\<close>

definition Buffer_from :: "string \<Rightarrow> byte list" where
  "Buffer_from s = map of_char s"

text \<open>\<open>digest("hex")\<close>: two lower-case hexadecimal digits for each byte.\<close>

definition hex_digit :: "nat \<Rightarrow> char" where
  "hex_digit n = ''0123456789abcdef'' ! (n mod 16)"

definition hex :: "byte list \<Rightarrow> string" where
  "hex bs = concat (map (\<lambda>b. [hex_digit (unat b div 16), hex_digit (unat b mod 16)]) bs)"

text \<open>SHA-256 (FIPS 180-4), the hash behind \<open>crypto.createHmac("sha256", key)\<close>, on
  32-bit words with wrap-around addition.\<close>

type_synonym word32 = "32 word"

definition rotr :: "nat \<Rightarrow> word32 \<Rightarrow> word32" where
  "rotr n x = drop_bit n x OR push_bit (32 - n) x"

definition Ch :: "word32 \<Rightarrow> word32 \<Rightarrow> word32 \<Rightarrow> word32" where
  "Ch x y z = (x AND y) XOR (NOT x AND z)"

definition Maj :: "word32 \<Rightarrow> word32 \<Rightarrow> word32 \<Rightarrow> word32" where
  "Maj x y z = (x AND y) XOR (x AND z) XOR (y AND z)"

definition Sigma0 :: "word32 \<Rightarrow> word32" where
  "Sigma0 x = rotr 2 x XOR rotr 13 x XOR rotr 22 x"

definition Sigma1 :: "word32 \<Rightarrow> word32" where
  "Sigma1 x = rotr 6 x XOR rotr 11 x XOR rotr 25 x"

definition sigma0 :: "word32 \<Rightarrow> word32" where
  "sigma0 x = rotr 7 x XOR rotr 18 x XOR drop_bit 3 x"

definition sigma1 :: "word32 \<Rightarrow> word32" where
  "sigma1 x = rotr 17 x XOR rotr 19 x XOR drop_bit 10 x"

definition sha256_K :: "word32 list" where
  "sha256_K =
    [0x428A2F98, 0x71374491, 0xB5C0FBCF, 0xE9B5DBA5, 0x3956C25B, 0x59F111F1, 0x923F82A4, 0xAB1C5ED5,
     0xD807AA98, 0x12835B01, 0x243185BE, 0x550C7DC3, 0x72BE5D74, 0x80DEB1FE, 0x9BDC06A7, 0xC19BF174,
     0xE49B69C1, 0xEFBE4786, 0x0FC19DC6, 0x240CA1CC, 0x2DE92C6F, 0x4A7484AA, 0x5CB0A9DC, 0x76F988DA,
     0x983E5152, 0xA831C66D, 0xB00327C8, 0xBF597FC7, 0xC6E00BF3, 0xD5A79147, 0x06CA6351, 0x14292967,
     0x27B70A85, 0x2E1B2138, 0x4D2C6DFC, 0x53380D13, 0x650A7354, 0x766A0ABB, 0x81C2C92E, 0x92722C85,
     0xA2BFE8A1, 0xA81A664B, 0xC24B8B70, 0xC76C51A3, 0xD192E819, 0xD6990624, 0xF40E3585, 0x106AA070,
     0x19A4C116, 0x1E376C08, 0x2748774C, 0x34B0BCB5, 0x391C0CB3, 0x4ED8AA4A, 0x5B9CCA4F, 0x682E6FF3,
     0x748F82EE, 0x78A5636F, 0x84C87814, 0x8CC70208, 0x90BEFFFA, 0xA4506CEB, 0xBEF9A3F7, 0xC67178F2]"

type_synonym sha256_state =
  "word32 \<times> word32 \<times> word32 \<times> word32 \<times> word32 \<times> word32 \<times> word32 \<times> word32"

definition sha256_init :: sha256_state where
  "sha256_init =
    (0x6A09E667, 0xBB67AE85, 0x3C6EF372, 0xA54FF53A, 0x510E527F, 0x9B05688C, 0x1F83D9AB, 0x5BE0CD19)"

text \<open>Padding: the byte \<open>0x80\<close>, zero bytes up to 56 modulo 64, and the length of the
  message in bits as a 64-bit big-endian number.\<close>

definition be_bytes64 :: "64 word \<Rightarrow> byte list" where
  "be_bytes64 w = map (\<lambda>i. ucast (drop_bit (8 * (7 - i)) w)) [0..<8]"

definition sha256_pad :: "byte list \<Rightarrow> byte list" where
  "sha256_pad msg =
     msg @ [0x80] @ replicate ((64 - (length msg + 9) mod 64) mod 64) 0
       @ be_bytes64 (of_nat (8 * length msg))"

definition be_word :: "byte list \<Rightarrow> word32" where
  "be_word bs = foldl (\<lambda>w b. push_bit 8 w OR ucast b) 0 bs"

definition word_bytes :: "word32 \<Rightarrow> byte list" where
  "word_bytes w = [ucast (drop_bit 24 w), ucast (drop_bit 16 w), ucast (drop_bit 8 w), ucast w]"

fun schedule :: "nat \<Rightarrow> word32 list \<Rightarrow> word32 list" where
  "schedule 0 ws = ws"
| "schedule (Suc n) ws =
     (let t = length ws
      in schedule n (ws @ [sigma1 (ws ! (t - 2)) + ws ! (t - 7) + sigma0 (ws ! (t - 15)) + ws ! (t - 16)]))"

fun sha256_round :: "word32 \<times> word32 \<Rightarrow> sha256_state \<Rightarrow> sha256_state" where
  "sha256_round (k, w) (a, b, c, d, e, f, g, h) =
     (let T1 = h + Sigma1 e + Ch e f g + k + w;
          T2 = Sigma0 a + Maj a b c
      in (T1 + T2, a, b, c, d + T1, e, f, g))"

fun sha256_add :: "sha256_state \<Rightarrow> sha256_state \<Rightarrow> sha256_state" where
  "sha256_add (a, b, c, d, e, f, g, h) (a', b', c', d', e', f', g', h') =
     (a + a', b + b', c + c', d + d', e + e', f + f', g + g', h + h')"

definition sha256_compress :: "byte list \<Rightarrow> sha256_state \<Rightarrow> sha256_state" where
  "sha256_compress block st =
     (let ws = schedule 48 (map (\<lambda>j. be_word (take 4 (drop (4 * j) block))) [0..<16])
      in sha256_add st (fold sha256_round (zip sha256_K ws) st))"

fun sha256_output :: "sha256_state \<Rightarrow> byte list" where
  "sha256_output (a, b, c, d, e, f, g, h) = concat (map word_bytes [a, b, c, d, e, f, g, h])"

definition sha256 :: "byte list \<Rightarrow> byte list" where
  "sha256 msg =
     (let padded = sha256_pad msg;
          blocks = map (\<lambda>i. take 64 (drop (64 * i) padded)) [0..<length padded div 64]
      in sha256_output (fold sha256_compress blocks sha256_init))"

text \<open>\<open>crypto.createHmac("sha256", key)\<close> is HMAC (RFC 2104) over SHA-256, whose block
  size is 64 bytes: a key longer than a block is hashed first, and the key is then padded
  with zero bytes to a full block.\<close>

definition hmac_key_block :: "byte list \<Rightarrow> byte list" where
  "hmac_key_block key =
     (let k = (if length key > 64 then sha256 key else key)
      in k @ replicate (64 - length k) 0)"

definition hmac_sha256 :: "byte list \<Rightarrow> byte list \<Rightarrow> byte list" where
  "hmac_sha256 key msg =
     (let kb = hmac_key_block key
      in sha256 (map (\<lambda>b. b XOR 0x5c) kb @ sha256 (map (\<lambda>b. b XOR 0x36) kb @ msg)))"

text \<open>\<open>crypto.timingSafeEqual(a, b)\<close> throws a \<open>RangeError\<close> when the two buffers differ in
  byte length, and otherwise tells whether they are equal.\<close>

definition timingSafeEqual :: "byte list \<Rightarrow> byte list \<Rightarrow> error + bool" where
  "timingSafeEqual a b =
     (if length a \<noteq> length b
      then Inl (RangeError ''Input buffers must have the same byte length'')
      else Inr (a = b))"

subsection \<open>generateSignature and verifySignature\<close>

definition generateSignature :: "string \<Rightarrow> string \<Rightarrow> string" where
  "generateSignature payload secret =
     ''sha256='' @ hex (hmac_sha256 (Buffer_from secret) (Buffer_from payload))"

definition verifySignature :: "string \<Rightarrow> string \<Rightarrow> string \<Rightarrow> error + bool" where
  "verifySignature payload signature secret =
     (let expected = generateSignature payload secret
      in timingSafeEqual (Buffer_from signature) (Buffer_from expected))"

subsection \<open>Data\<close>

text \<open>The \<open>data\<close> of an event is a JSON value.\<close>

datatype json =
    JNull
  | JBool bool
  | JNumber int
  | JString string
  | JArray "json list"
  | JObject "(string \<times> json) list"

record WebhookConfig =
  wh_id :: string
  wh_url :: string
  wh_events :: "string list"
  wh_secret :: "string option"
  wh_active :: bool
  wh_createdAt :: nat
  wh_retryCount :: nat

record WebhookEvent =
  ev_type :: string
  ev_data :: json
  ev_timestamp :: nat
  ev_id :: string

datatype delivery_status = Pending | Success | Failed

record WebhookDelivery =
  dl_id :: string
  dl_webhookId :: string
  dl_eventId :: string
  dl_status :: delivery_status
  dl_attempts :: nat
  dl_responseStatus :: "nat option"
  dl_responseBody :: "string option"
  dl_error :: "string option"
  dl_createdAt :: nat
  dl_completedAt :: "nat option"

text \<open>The argument of \<open>fetch\<close>, and how the awaited call ends: the promise of \<open>fetch\<close> or
  of \<open>response.text()\<close> rejects (with the text that
  \<open>error instanceof Error ? error.message : String(error)\<close> yields for the thrown value), or
  a response arrives with a status and a body.\<close>

record request =
  req_url :: string
  req_method :: string
  req_headers :: "(string \<times> string) list"
  req_body :: string
  req_timeout :: nat

datatype fetch_result =
    Rejected string
  | Response nat string

text \<open>What the service does to the outside: the notifications of its \<open>EventEmitter\<close>, the
  HTTP requests it issues and the delays it waits for, in the order they happen.\<close>

datatype notification =
    webhook_registered WebhookConfig
  | webhook_deleted string
  | webhook_updated WebhookConfig
  | event_triggered WebhookEvent
  | delivery_success WebhookDelivery WebhookConfig WebhookEvent
  | delivery_failed WebhookDelivery WebhookConfig WebhookEvent

datatype effect =
    Emit notification
  | Fetch request
  | Delay nat

text \<open>The platform: the library functions the service calls and does not define, and what
  the clock and the random number generator answer to the \<open>k\<close>-th question the service
  asks them.  \<open>Math_random36 e k\<close> stands for \<open>Math.random().toString(36).substr(2, 9)\<close>.\<close>

record env =
  URL_parses :: "string \<Rightarrow> bool"
  JSON_stringify :: "json \<Rightarrow> string"
  toISOString :: "nat \<Rightarrow> string"
  Date_now :: "nat \<Rightarrow> nat"
  Math_random36 :: "nat \<Rightarrow> string"

text \<open>The fields of the service.  A subscription and a delivery are objects: the maps hold
  references to them, \<open>updateWebhookStatus\<close> and \<open>sendWebhook\<close> change them in place, and
  a call of \<open>sendWebhook\<close> keeps the references it was given and made.  So the state has a
  store of webhook objects and a store of delivery objects (a reference is a position in the
  store, and an object stays where it is), and the two maps from ids to references.
  \<open>tick\<close> counts the questions asked to the clock and the random number generator.\<close>

record state =
  webhooks :: "(string \<times> nat) list"
  webhook_objs :: "WebhookConfig list"
  deliveries :: "(string \<times> nat) list"
  delivery_objs :: "WebhookDelivery list"
  trace :: "effect list"
  tick :: nat

definition init :: state where
  "init = \<lparr>webhooks = [], webhook_objs = [], deliveries = [], delivery_objs = [],
            trace = [], tick = 0\<rparr>"

definition maxRetries :: nat where
  "maxRetries = 3"

definition retryDelays :: "nat list" where
  "retryDelays = [1000, 5000, 15000]"

subsection \<open>The JavaScript Map, in insertion order\<close>

fun Map_set :: "'k \<Rightarrow> 'v \<Rightarrow> ('k \<times> 'v) list \<Rightarrow> ('k \<times> 'v) list" where
  "Map_set k v [] = [(k, v)]"
| "Map_set k v ((k', v') # m) = (if k' = k then (k, v) # m else (k', v') # Map_set k v m)"

definition Map_get :: "('k \<times> 'v) list \<Rightarrow> 'k \<Rightarrow> 'v option" where
  "Map_get m k = map_of m k"

definition Map_has :: "('k \<times> 'v) list \<Rightarrow> 'k \<Rightarrow> bool" where
  "Map_has m k = (k \<in> set (map fst m))"

definition Map_delete :: "'k \<Rightarrow> ('k \<times> 'v) list \<Rightarrow> ('k \<times> 'v) list" where
  "Map_delete k m = filter (\<lambda>(k', v). k' \<noteq> k) m"

definition Map_values :: "('k \<times> 'v) list \<Rightarrow> 'v list" where
  "Map_values m = map snd m"

subsection \<open>Helpers\<close>

text \<open>A number in a template literal: its decimal digits.\<close>

fun decimal :: "nat \<Rightarrow> string" where
  "decimal n =
     (if n < 10 then [''0123456789'' ! n]
      else decimal (n div 10) @ [''0123456789'' ! (n mod 10)])"

definition new_Date :: "env \<Rightarrow> state \<Rightarrow> nat \<times> state" where
  "new_Date e s = (Date_now e (tick s), s\<lparr>tick := tick s + 1\<rparr>)"

definition generateId :: "env \<Rightarrow> state \<Rightarrow> string \<times> state" where
  "generateId e s =
     (decimal (Date_now e (tick s)) @ ''-'' @ Math_random36 e (tick s + 1),
      s\<lparr>tick := tick s + 2\<rparr>)"

definition emit :: "notification \<Rightarrow> state \<Rightarrow> state" where
  "emit n s = s\<lparr>trace := trace s @ [Emit n]\<rparr>"

definition delay :: "nat \<Rightarrow> state \<Rightarrow> state" where
  "delay ms s = s\<lparr>trace := trace s @ [Delay ms]\<rparr>"

subsection \<open>The webhook registry\<close>

text \<open>The methods return objects, here references: \<open>registerWebhook\<close> the new webhook
  object, \<open>getWebhook\<close> and \<open>listWebhooks\<close> the objects in the map.\<close>

definition registerWebhook ::
  "env \<Rightarrow> string \<Rightarrow> string list \<Rightarrow> string option \<Rightarrow> state \<Rightarrow> (error + nat) \<times> state" where
  "registerWebhook e url events secret s =
     (if \<not> URL_parses e url then (Inl (Error ''Invalid webhook URL''), s)
      else if length events = 0 then (Inl (Error ''At least one event type is required''), s)
      else
        let (wid, s1) = generateId e s;
            (now, s2) = new_Date e s1;
            webhook = \<lparr>wh_id = wid, wh_url = url, wh_events = events, wh_secret = secret,
                       wh_active = True, wh_createdAt = now, wh_retryCount = 0\<rparr>;
            w = length (webhook_objs s2);
            s3 = s2\<lparr>webhook_objs := webhook_objs s2 @ [webhook],
                    webhooks := Map_set (wh_id webhook) w (webhooks s2)\<rparr>
        in (Inr w, emit (webhook_registered webhook) s3))"

definition listWebhooks :: "state \<Rightarrow> nat list" where
  "listWebhooks s = Map_values (webhooks s)"

definition getWebhook :: "state \<Rightarrow> string \<Rightarrow> nat option" where
  "getWebhook s wid = Map_get (webhooks s) wid"

definition deleteWebhook :: "string \<Rightarrow> state \<Rightarrow> bool \<times> state" where
  "deleteWebhook wid s =
     (let deleted = Map_has (webhooks s) wid;
          s1 = s\<lparr>webhooks := Map_delete wid (webhooks s)\<rparr>
      in if deleted then (True, emit (webhook_deleted wid) s1) else (False, s1))"

definition updateWebhookStatus :: "string \<Rightarrow> bool \<Rightarrow> state \<Rightarrow> nat option \<times> state" where
  "updateWebhookStatus wid active s =
     (case Map_get (webhooks s) wid of
        None \<Rightarrow> (None, s)
      | Some w \<Rightarrow>
          let s1 = s\<lparr>webhook_objs := (webhook_objs s)[w := (webhook_objs s ! w)\<lparr>wh_active := active\<rparr>]\<rparr>
          in (Some w, emit (webhook_updated (webhook_objs s1 ! w)) s1))"

subsection \<open>The delivery store\<close>

definition getDeliveries :: "state \<Rightarrow> string option \<Rightarrow> nat list" where
  "getDeliveries s webhookId =
     (let ds = Map_values (deliveries s)
      in case webhookId of
           None \<Rightarrow> ds
         | Some wid \<Rightarrow>
             if wid \<noteq> [] then filter (\<lambda>d. dl_webhookId (delivery_objs s ! d) = wid) ds else ds)"

definition getDelivery :: "state \<Rightarrow> string \<Rightarrow> nat option" where
  "getDelivery s did = Map_get (deliveries s) did"

subsection \<open>The delivery engine\<close>

text \<open>In what follows \<open>w\<close> is the reference to the webhook object that \<open>sendWebhook\<close> was
  called with and \<open>d\<close> the reference to the delivery object it made.\<close>

definition modify_delivery :: "nat \<Rightarrow> (WebhookDelivery \<Rightarrow> WebhookDelivery) \<Rightarrow> state \<Rightarrow> state" where
  "modify_delivery d f s = s\<lparr>delivery_objs := (delivery_objs s)[d := f (delivery_objs s ! d)]\<rparr>"

text \<open>\<open>sendWebhook\<close>, lines 154 to 163: the new delivery object, put into the map under its
  id.  The result is the reference to the object.\<close>

definition sendWebhook_create :: "env \<Rightarrow> nat \<Rightarrow> WebhookEvent \<Rightarrow> state \<Rightarrow> nat \<times> state" where
  "sendWebhook_create e w event s =
     (let (did, s1) = generateId e s;
          (now, s2) = new_Date e s1;
          delivery = \<lparr>dl_id = did, dl_webhookId = wh_id (webhook_objs s ! w),
                      dl_eventId = ev_id event,
                      dl_status = Pending, dl_attempts = 0, dl_responseStatus = None,
                      dl_responseBody = None, dl_error = None, dl_createdAt = now,
                      dl_completedAt = None\<rparr>;
          d = length (delivery_objs s2)
      in (d, s2\<lparr>delivery_objs := delivery_objs s2 @ [delivery],
                deliveries := Map_set (dl_id delivery) d (deliveries s2)\<rparr>))"

text \<open>\<open>executeDelivery\<close> up to its \<open>await fetch(...)\<close>: the request goes out.\<close>

definition executeDelivery_request :: "env \<Rightarrow> nat \<Rightarrow> WebhookEvent \<Rightarrow> state \<Rightarrow> state" where
  "executeDelivery_request e w event s =
     (let webhook = webhook_objs s ! w;
          payload = JSON_stringify e (JObject
            [(''event'', JString (ev_type event)),
             (''data'', ev_data event),
             (''timestamp'', JString (toISOString e (ev_timestamp event))),
             (''id'', JString (ev_id event))]);
          (xid, s1) = generateId e s;
          headers =
            [(''Content-Type'', ''application/json''),
             (''User-Agent'', ''Sorosave-Webhook/1.0''),
             (''X-Webhook-ID'', wh_id webhook),
             (''X-Event-ID'', ev_id event),
             (''X-Delivery-ID'', xid)]
            @ (case wh_secret webhook of
                 None \<Rightarrow> []
               | Some secret \<Rightarrow>
                   if secret \<noteq> [] then [(''X-Webhook-Signature'', generateSignature payload secret)]
                   else []);
          req = \<lparr>req_url = wh_url webhook, req_method = ''POST'', req_headers = headers,
                  req_body = payload, req_timeout = 30000\<rparr>
      in s1\<lparr>trace := trace s1 @ [Fetch req]\<rparr>)"

text \<open>\<open>executeDelivery\<close> after the \<open>await\<close>: it returns the status and the body of a
  response that is \<open>ok\<close> (status 200 to 299) and throws otherwise; \<open>Inl\<close> holds the message
  that the \<open>catch\<close> clause of \<open>sendWebhook\<close> reads off the thrown value.\<close>

definition executeDelivery_result :: "fetch_result \<Rightarrow> string + nat \<times> string" where
  "executeDelivery_result res =
     (case res of
        Rejected msg \<Rightarrow> Inl msg
      | Response status body \<Rightarrow>
          if \<not> (200 \<le> status \<and> status \<le> 299)
          then Inl (''HTTP '' @ decimal status @ '': '' @ body)
          else Inr (status, body))"

text \<open>One turn of the loop of \<open>sendWebhook\<close> is two steps with the \<open>await\<close> between them:
  \<open>begin_attempt\<close> (line 167 and the call in line 170) and \<open>end_attempt\<close> (lines 172 to
  189), which tells whether \<open>sendWebhook\<close> returns or goes on with the loop.\<close>

datatype control = Return | Continue

definition begin_attempt :: "env \<Rightarrow> nat \<Rightarrow> WebhookEvent \<Rightarrow> nat \<Rightarrow> nat \<Rightarrow> state \<Rightarrow> state" where
  "begin_attempt e w event d attempt s =
     executeDelivery_request e w event
       (modify_delivery d (\<lambda>delivery. delivery\<lparr>dl_attempts := attempt + 1\<rparr>) s)"

definition end_attempt ::
  "env \<Rightarrow> nat \<Rightarrow> WebhookEvent \<Rightarrow> nat \<Rightarrow> nat \<Rightarrow> fetch_result \<Rightarrow> state \<Rightarrow> control \<times> state" where
  "end_attempt e w event d attempt res s =
     (case executeDelivery_result res of
        Inr (status, body) \<Rightarrow>
          let (now, s1) = new_Date e s;
              s2 = modify_delivery d
                     (\<lambda>delivery. delivery\<lparr>dl_status := Success, dl_responseStatus := Some status,
                                            dl_completedAt := Some now\<rparr>) s1
          in (Return, emit (delivery_success (delivery_objs s2 ! d) (webhook_objs s2 ! w) event) s2)
      | Inl msg \<Rightarrow>
          let s1 = modify_delivery d (\<lambda>delivery. delivery\<lparr>dl_error := Some msg\<rparr>) s
          in if attempt < maxRetries then (Continue, delay (retryDelays ! attempt) s1)
             else
               let (now, s2) = new_Date e s1;
                   s3 = modify_delivery d
                          (\<lambda>delivery. delivery\<lparr>dl_status := Failed, dl_completedAt := Some now\<rparr>) s2
               in (Continue,
                   emit (delivery_failed (delivery_objs s3 ! d) (webhook_objs s3 ! w) event) s3))"

text \<open>The loop of \<open>sendWebhook\<close>, with nothing else running between its steps: \<open>results k\<close>
  is how the \<open>fetch\<close> of the attempt with loop counter \<open>k\<close> ends.\<close>

function sendWebhook_loop ::
  "env \<Rightarrow> (nat \<Rightarrow> fetch_result) \<Rightarrow> nat \<Rightarrow> WebhookEvent \<Rightarrow> nat \<Rightarrow> nat \<Rightarrow> state \<Rightarrow> state" where
  "sendWebhook_loop e results w event d attempt s =
     (if attempt \<le> maxRetries then
        (case end_attempt e w event d attempt (results attempt)
                (begin_attempt e w event d attempt s) of
           (Return, s') \<Rightarrow> s'
         | (Continue, s') \<Rightarrow> sendWebhook_loop e results w event d (attempt + 1) s')
      else s)"
  by pat_completeness auto
termination
  by (relation "measure (\<lambda>(e, results, w, event, d, attempt, s). maxRetries + 1 - attempt)") auto

definition sendWebhook ::
  "env \<Rightarrow> (nat \<Rightarrow> fetch_result) \<Rightarrow> nat \<Rightarrow> WebhookEvent \<Rightarrow> state \<Rightarrow> nat \<times> state" where
  "sendWebhook e results w event s =
     (let (d, s1) = sendWebhook_create e w event s
      in (d, sendWebhook_loop e results w event d 0 s1))"

subsection \<open>The event dispatcher\<close>

text \<open>A call of \<open>sendWebhook\<close> that has not returned yet: its arguments, its delivery object,
  its loop counter and what it waits for.\<close>

datatype wait = AwaitFetch | AwaitDelay

record task =
  tk_webhook :: nat
  tk_event :: WebhookEvent
  tk_delivery :: nat
  tk_attempt :: nat
  tk_wait :: wait

text \<open>A call of an \<open>async\<close> function runs up to its first \<open>await\<close> that has to wait:
  \<open>sendWebhook\<close> creates its delivery and begins the first attempt.\<close>

definition sendWebhook_start :: "env \<Rightarrow> nat \<Rightarrow> WebhookEvent \<Rightarrow> state \<Rightarrow> task \<times> state" where
  "sendWebhook_start e w event s =
     (let (d, s1) = sendWebhook_create e w event s
      in (\<lparr>tk_webhook = w, tk_event = event, tk_delivery = d, tk_attempt = 0,
           tk_wait = AwaitFetch\<rparr>,
          begin_attempt e w event d 0 s1))"

text \<open>\<open>matchingWebhooks.map((webhook) => this.sendWebhook(webhook, event))\<close>\<close>

fun sendWebhook_map :: "env \<Rightarrow> WebhookEvent \<Rightarrow> nat list \<Rightarrow> state \<Rightarrow> task list \<times> state" where
  "sendWebhook_map e event [] s = ([], s)"
| "sendWebhook_map e event (w # rest) s =
     (let (t, s1) = sendWebhook_start e w event s;
          (ts, s2) = sendWebhook_map e event rest s1
      in (t # ts, s2))"

text \<open>\<open>triggerEvent\<close> up to its \<open>await Promise.all(...)\<close>: the result lists the calls of
  \<open>sendWebhook\<close> the promise waits for.  When there is none, \<open>triggerEvent\<close> is done.\<close>

definition triggerEvent :: "env \<Rightarrow> string \<Rightarrow> json \<Rightarrow> state \<Rightarrow> task list \<times> state" where
  "triggerEvent e type data s =
     (let (now, s1) = new_Date e s;
          (eid, s2) = generateId e s1;
          event = \<lparr>ev_type = type, ev_data = data, ev_timestamp = now, ev_id = eid\<rparr>;
          s3 = emit (event_triggered event) s2;
          matchingWebhooks =
            filter (\<lambda>w. wh_active (webhook_objs s3 ! w) \<and> type \<in> set (wh_events (webhook_objs s3 ! w)))
              (Map_values (webhooks s3))
      in sendWebhook_map e event matchingWebhooks s3)"

subsection \<open>The service over time\<close>

text \<open>The service together with the calls of \<open>sendWebhook\<close> in flight.  JavaScript runs one
  piece of code at a time, from one \<open>await\<close> to the next: a step is a call of a method of
  the service, the end of a \<open>fetch\<close> that a call of \<open>sendWebhook\<close> waits for, or the end of
  its delay.\<close>

inductive step :: "env \<Rightarrow> state \<times> task list \<Rightarrow> state \<times> task list \<Rightarrow> bool" for e :: env where
  step_register:
    "registerWebhook e url events secret s = (res, s') \<Longrightarrow> step e (s, ts) (s', ts)"
| step_delete:
    "deleteWebhook wid s = (deleted, s') \<Longrightarrow> step e (s, ts) (s', ts)"
| step_update:
    "updateWebhookStatus wid active s = (res, s') \<Longrightarrow> step e (s, ts) (s', ts)"
| step_trigger:
    "triggerEvent e type data s = (new, s') \<Longrightarrow> step e (s, ts) (s', ts @ new)"
| step_fetch_return:
    "tk_wait t = AwaitFetch \<Longrightarrow>
     end_attempt e (tk_webhook t) (tk_event t) (tk_delivery t) (tk_attempt t) res s = (Return, s') \<Longrightarrow>
     step e (s, ts1 @ t # ts2) (s', ts1 @ ts2)"
| step_fetch_retry:
    "tk_wait t = AwaitFetch \<Longrightarrow>
     end_attempt e (tk_webhook t) (tk_event t) (tk_delivery t) (tk_attempt t) res s = (Continue, s') \<Longrightarrow>
     tk_attempt t + 1 \<le> maxRetries \<Longrightarrow>
     step e (s, ts1 @ t # ts2) (s', ts1 @ t\<lparr>tk_wait := AwaitDelay\<rparr> # ts2)"
| step_fetch_exhausted:
    "tk_wait t = AwaitFetch \<Longrightarrow>
     end_attempt e (tk_webhook t) (tk_event t) (tk_delivery t) (tk_attempt t) res s = (Continue, s') \<Longrightarrow>
     \<not> tk_attempt t + 1 \<le> maxRetries \<Longrightarrow>
     step e (s, ts1 @ t # ts2) (s', ts1 @ ts2)"
| step_delay:
    "tk_wait t = AwaitDelay \<Longrightarrow>
     step e (s, ts1 @ t # ts2)
       (begin_attempt e (tk_webhook t) (tk_event t) (tk_delivery t) (tk_attempt t + 1) s,
        ts1 @ t\<lparr>tk_attempt := tk_attempt t + 1, tk_wait := AwaitFetch\<rparr> # ts2)"

inductive reachable :: "env \<Rightarrow> state \<times> task list \<Rightarrow> bool" for e :: env where
  reachable_init: "reachable e (init, [])"
| reachable_step: "reachable e c \<Longrightarrow> step e c c' \<Longrightarrow> reachable e c'"

subsection \<open>Invariants\<close>

text \<open>The registry as the service keeps it: one entry for a key, and every entry refers to
  a webhook object whose id is the key.\<close>

definition registry_ok :: "state \<Rightarrow> bool" where
  "registry_ok s \<longleftrightarrow>
     distinct (map fst (webhooks s)) \<and>
     list_all (\<lambda>(k, w). w < length (webhook_objs s) \<and> wh_id (webhook_objs s ! w) = k) (webhooks s)"

text \<open>The delivery objects as the service keeps them: the completed timestamp is there
  exactly on the objects whose status is success or failed, and every entry of the map refers
  to an object.\<close>

definition delivery_ok :: "WebhookDelivery \<Rightarrow> bool" where
  "delivery_ok delivery \<longleftrightarrow>
     (dl_completedAt delivery \<noteq> None) = (dl_status delivery = Success \<or> dl_status delivery = Failed)"

definition store_ok :: "state \<Rightarrow> bool" where
  "store_ok s \<longleftrightarrow>
     list_all delivery_ok (delivery_objs s) \<and>
     list_all (\<lambda>(k, d). d < length (delivery_objs s)) (deliveries s)"

text \<open>The delivery object as \<open>sendWebhook\<close> leaves it when it begins its first attempt.\<close>

definition started :: "env \<Rightarrow> WebhookConfig \<Rightarrow> WebhookEvent \<Rightarrow> state \<Rightarrow> WebhookDelivery" where
  "started e webhook event s =
     \<lparr>dl_id = fst (generateId e s), dl_webhookId = wh_id webhook,
      dl_eventId = ev_id event, dl_status = Pending, dl_attempts = 1,
      dl_responseStatus = None, dl_responseBody = None, dl_error = None,
      dl_createdAt = Date_now e (tick s + 2), dl_completedAt = None\<rparr>"

subsection \<open>Examples\<close>

text \<open>A platform for the examples.  \<open>new URL\<close> accepts the four URLs listed and throws on
  \<open>not-a-url\<close>, which has no scheme; the examples register these five strings only, and
  \<open>example_URL_parses\<close> says nothing about any other string.  The clock starts at 0 and
  advances by one millisecond with every question.  The examples do not look into the bodies of the requests:
  \<open>JSON_stringify\<close> and \<open>toISOString\<close> return fixed texts.\<close>

definition example_URL_parses :: "string \<Rightarrow> bool" where
  "example_URL_parses url =
     (if url \<in> set [''https://example.com/hook'', ''https://example.org/other'',
                     ''https://a.example/'', ''https://b.example/''] then True
      else if url = ''not-a-url'' then False
      else undefined url)"

definition example_env :: env where
  "example_env =
     \<lparr>URL_parses = example_URL_parses,
      JSON_stringify = (\<lambda>j. ''{}''),
      toISOString = (\<lambda>t. ''2023-11-14T22:13:20.000Z''),
      Date_now = (\<lambda>k. k),
      Math_random36 = (\<lambda>k. ''4fzzzxjyl'')\<rparr>"


definition example_registered :: state where
  "example_registered =
     snd (registerWebhook example_env ''https://example.com/hook'' [''payout''] None init)"

definition example_triggered :: "task list \<times> state" where
  "example_triggered = triggerEvent example_env ''payout'' JNull example_registered"

definition example_event :: WebhookEvent where
  "example_event =
     \<lparr>ev_type = ''payout'', ev_data = JNull, ev_timestamp = 3,
      ev_id = ''4-4fzzzxjyl''\<rparr>"

definition example_delivered :: "control \<times> state" where
  "example_delivered =
     end_attempt example_env 0 example_event 0 0 (Response 200 ''ok'') (snd example_triggered)"




definition fails_once :: "nat \<Rightarrow> fetch_result" where
  "fails_once k = (if k = 0 then Response 500 ''boom'' else Response 200 ''ok'')"

section \<open>Properties\<close>

declare decimal.simps [simp del]

lemma length_Buffer_from: "length (Buffer_from s) = length s"
  by (simp add: Buffer_from_def)

lemma unat_of_char_byte: "unat (of_char c :: byte) = of_char c"
proof -
  have "(of_char c :: byte) = of_nat (of_char c)"
    by (simp add: of_nat_of_char)
  then have "unat (of_char c :: byte) = (of_char c :: nat) mod 256"
    by (simp add: unat_of_nat)
  then show ?thesis
    by (simp add: of_char_mod_256)
qed

lemma Buffer_from_inject: "Buffer_from s = Buffer_from t \<longleftrightarrow> s = t"
proof -
  have "inj (of_char :: char \<Rightarrow> byte)"
  proof (rule injI)
    fix c d :: char
    assume "(of_char c :: byte) = of_char d"
    then have "unat (of_char c :: byte) = unat (of_char d :: byte)" by simp
    then show "c = d" by (simp add: unat_of_char_byte)
  qed
  then show ?thesis by (simp add: Buffer_from_def inj_map_eq_map)
qed

subsection \<open>Signatures\<close>

lemma length_hex: "length (hex bs) = 2 * length bs"
  by (induction bs) (simp_all add: hex_def)

lemma hex_digit_inj: "m < 16 \<Longrightarrow> n < 16 \<Longrightarrow> hex_digit m = hex_digit n \<longleftrightarrow> m = n"
proof -
  have "distinct ''0123456789abcdef''"
    by simp
  then show "m < 16 \<Longrightarrow> n < 16 \<Longrightarrow> hex_digit m = hex_digit n \<longleftrightarrow> m = n"
    by (simp add: hex_digit_def nth_eq_iff_index_eq del: distinct.simps)
qed

lemma hex_byte_inj:
  fixes b c :: byte
  assumes "hex_digit (unat b div 16) = hex_digit (unat c div 16)"
    and "hex_digit (unat b mod 16) = hex_digit (unat c mod 16)"
  shows "b = c"
proof -
  have "unat b < 256" and "unat c < 256"
    using unsigned_less [of b, where ?'a = nat] unsigned_less [of c, where ?'a = nat] by simp_all
  then have "unat b div 16 < 16" "unat c div 16 < 16"
    by simp_all
  with assms(1) have d: "unat b div 16 = unat c div 16"
    by (simp add: hex_digit_inj)
  from assms(2) have m: "unat b mod 16 = unat c mod 16"
    by (simp add: hex_digit_inj)
  have "unat b = unat c"
    using d m by (metis div_mult_mod_eq)
  then show ?thesis
    by (simp add: word_unat_eq_iff)
qed

lemma hex_inject: "hex bs = hex cs \<longleftrightarrow> bs = cs"
proof (induction bs arbitrary: cs)
  case Nil
  then show ?case by (cases cs) (simp_all add: hex_def)
next
  case (Cons b bs)
  show ?case
  proof (cases cs)
    case Nil
    then show ?thesis by (simp add: hex_def)
  next
    case (Cons c cs')
    have "hex (b # bs) = hex (c # cs') \<longleftrightarrow>
            hex_digit (unat b div 16) = hex_digit (unat c div 16) \<and>
            hex_digit (unat b mod 16) = hex_digit (unat c mod 16) \<and> hex bs = hex cs'"
      by (simp add: hex_def)
    also have "\<dots> \<longleftrightarrow> b = c \<and> bs = cs'"
      using Cons.IH [of cs'] hex_byte_inj [of b c] by auto
    finally show ?thesis using Cons by simp
  qed
qed

lemma length_sha256_output: "length (sha256_output st) = 32"
  by (induction st rule: sha256_output.induct) (simp add: word_bytes_def)

lemma length_sha256: "length (sha256 m) = 32"
  by (simp add: sha256_def Let_def length_sha256_output)

lemma length_generateSignature: "length (generateSignature payload secret) = 71"
  by (simp add: generateSignature_def length_hex hmac_sha256_def Let_def length_sha256)

lemma verifySignature_eq:
  "verifySignature payload signature secret =
     (if length signature = 71 then Inr (signature = generateSignature payload secret)
      else Inl (RangeError ''Input buffers must have the same byte length''))"
  by (simp add: verifySignature_def timingSafeEqual_def length_Buffer_from Buffer_from_inject
      length_generateSignature)

lemma hmac_key_zero_padded:
  "hmac_sha256 (Buffer_from (''k'' @ [CHR 0x00])) m = hmac_sha256 (Buffer_from ''k'') m"
  by (simp add: hmac_sha256_def hmac_key_block_def Buffer_from_def numeral_eq_Suc)

lemma hmac_key_block_zero_padded:
  "length key + n \<le> 64 \<Longrightarrow> hmac_key_block (key @ replicate n 0) = hmac_key_block key"
  by (simp add: hmac_key_block_def flip: replicate_add)

lemma Buffer_from_zero_padded:
  "Buffer_from (secret @ replicate n (CHR 0x00)) = Buffer_from secret @ replicate n 0"
  by (simp add: Buffer_from_def)

lemma hmac_short_key_zero_padded:
  "length secret + n \<le> 64 \<Longrightarrow>
   hmac_sha256 (Buffer_from (secret @ replicate n (CHR 0x00))) m = hmac_sha256 (Buffer_from secret) m"
  by (simp add: hmac_sha256_def Buffer_from_zero_padded hmac_key_block_zero_padded
      length_Buffer_from)

text \<open>
  C1.  \<open>verifySignature\<close> is to return a boolean for every payload, signature and secret,
  \<open>false\<close> on a signature of the wrong length too.  It does not: on the signature
  \<open>"sha256=abc"\<close> (10 bytes, where a signature has 71) \<open>crypto.timingSafeEqual\<close> throws a
  \<open>RangeError\<close>, which \<open>verifySignature\<close> does not catch, whatever the payload and the
  secret are.
\<close>

theorem verifySignature_throws_on_short_signature:
  "verifySignature payload ''sha256=abc'' secret =
     Inl (RangeError ''Input buffers must have the same byte length'')"
  by (simp add: verifySignature_eq)

text \<open>
  C2, as the code has it.  The signature is \<open>sha256=\<close> and the hexadecimal HMAC-SHA256 of
  the payload under the secret (as a function of the two, it is the same on every call);
  a signature verifies against the payload and the secret it was made from; and against
  another payload or secret it verifies exactly when the HMAC of the other pair is the
  same, so it is rejected whenever the two digests differ.  The digests are the same when
  the other secret is the secret followed by zero bytes and is at most 64 bytes long.
\<close>

theorem sign_then_verify:
  "generateSignature payload secret =
       ''sha256='' @ hex (hmac_sha256 (Buffer_from secret) (Buffer_from payload))
   \<and> verifySignature payload (generateSignature payload secret) secret = Inr True
   \<and> verifySignature payload' (generateSignature payload secret) secret' =
       Inr (hmac_sha256 (Buffer_from secret') (Buffer_from payload') =
            hmac_sha256 (Buffer_from secret) (Buffer_from payload))
   \<and> (length secret + n \<le> 64 \<longrightarrow>
        verifySignature payload (generateSignature payload secret)
          (secret @ replicate n (CHR 0x00)) = Inr True)"
proof -
  have v: "verifySignature payload' (generateSignature payload secret) secret' =
      Inr (hmac_sha256 (Buffer_from secret') (Buffer_from payload') =
           hmac_sha256 (Buffer_from secret) (Buffer_from payload))" for payload' secret'
  proof -
    have "verifySignature payload' (generateSignature payload secret) secret' =
        Inr (generateSignature payload secret = generateSignature payload' secret')"
      by (simp add: verifySignature_eq length_generateSignature)
    then show ?thesis
      by (auto simp add: generateSignature_def hex_inject)
  qed
  have f: "generateSignature payload secret =
       ''sha256='' @ hex (hmac_sha256 (Buffer_from secret) (Buffer_from payload))"
    by (simp add: generateSignature_def)
  have r: "verifySignature payload (generateSignature payload secret) secret = Inr True"
    by (simp add: v)
  have z: "verifySignature payload (generateSignature payload secret)
          (secret @ replicate n (CHR 0x00)) = Inr True" if "length secret + n \<le> 64"
    using that by (simp add: v hmac_short_key_zero_padded)
  from f r v z show ?thesis
    by blast
qed

theorem sign_then_verify_witness:
  "length ''secret'' + 2 \<le> (64::nat)
   \<and> ''secret'' @ replicate 2 (CHR 0x00) \<noteq> ''secret''
   \<and> verifySignature ''{}'' (generateSignature ''{}'' ''secret'')
        (''secret'' @ replicate 2 (CHR 0x00)) = Inr True"
proof -
  have l: "length ''secret'' + 2 \<le> (64::nat)"
    by simp
  have n: "''secret'' @ replicate 2 (CHR 0x00) \<noteq> ''secret''"
    by simp
  from sign_then_verify [of "''{}''" "''secret''" "''{}''" "''secret''" 2] l
  have "verifySignature ''{}'' (generateSignature ''{}'' ''secret'')
        (''secret'' @ replicate 2 (CHR 0x00)) = Inr True"
    by blast
  with l n show ?thesis
    by (intro conjI)
qed


text \<open>
  C2, as it is stated, fails: HMAC pads a short key with zero bytes, so the secrets \<open>k\<close>
  and \<open>k\<close> followed by a zero byte are different and give the same signature, and a
  signature made with the one verifies with the other.
\<close>

theorem verify_accepts_a_different_secret:
  "''k'' @ [CHR 0x00] \<noteq> ''k'' \<and>
   verifySignature ''p'' (generateSignature ''p'' ''k'') (''k'' @ [CHR 0x00]) = Inr True"
proof -
  have "generateSignature ''p'' (''k'' @ [CHR 0x00]) = generateSignature ''p'' ''k''"
    by (simp only: generateSignature_def hmac_key_zero_padded)
  then have "verifySignature ''p'' (generateSignature ''p'' ''k'') (''k'' @ [CHR 0x00]) = Inr True"
    by (simp only: verifySignature_eq length_generateSignature) simp
  then show ?thesis
    by simp
qed

subsection \<open>The registry\<close>

lemma Map_has_iff: "Map_has m k \<longleftrightarrow> Map_get m k \<noteq> None"
  by (simp add: Map_has_def Map_get_def map_of_eq_None_iff)

lemma Map_get_delete: "Map_get (Map_delete k m) k' = (if k' = k then None else Map_get m k')"
  by (induction m) (auto simp add: Map_get_def Map_delete_def)







text \<open>
  C3.  When the URL does not parse or the list of events is empty, \<open>registerWebhook\<close> ends
  with the error for it (the one for the URL first) as the result of the call itself, and the
  state of the service is the one before the call: nothing is stored, nothing is emitted.
\<close>

theorem registerWebhook_rejects:
  assumes "\<not> URL_parses e url \<or> events = []"
  shows "registerWebhook e url events secret s =
           (Inl (Error (if \<not> URL_parses e url then ''Invalid webhook URL''
                        else ''At least one event type is required'')), s)"
  using assms by (auto simp add: registerWebhook_def)

lemma example_URLs:
  "\<not> URL_parses example_env ''not-a-url''"
  "URL_parses example_env ''https://example.com/hook''"
  "URL_parses example_env ''https://example.org/other''"
  by (simp_all add: example_env_def example_URL_parses_def)

theorem registerWebhook_rejects_witness:
  "registerWebhook example_env ''not-a-url'' [''payout''] None init =
     (Inl (Error ''Invalid webhook URL''), init)
   \<and> registerWebhook example_env ''https://example.com/hook'' [] None init =
     (Inl (Error ''At least one event type is required''), init)"
  using registerWebhook_rejects [of example_env "''not-a-url''" "[''payout'']" None init]
    registerWebhook_rejects [of example_env "''https://example.com/hook''" "[]" None init]
    example_URLs
  by simp

text \<open>
  C9.  \<open>deleteWebhook\<close> returns whether the id was in the registry, takes the entry for that
  id out of the registry and no other, and leaves the delivery map and the delivery objects
  as they are: \<open>getDeliveries\<close> and \<open>getDelivery\<close> return after it what they returned before.
\<close>

theorem deleteWebhook_frame:
  assumes "deleteWebhook wid s = (deleted, s')"
  shows "deleted = (getWebhook s wid \<noteq> None)
    \<and> webhooks s' = filter (\<lambda>(k, w). k \<noteq> wid) (webhooks s)
    \<and> getWebhook s' wid = None
    \<and> (\<forall>k. k \<noteq> wid \<longrightarrow> getWebhook s' k = getWebhook s k)
    \<and> webhook_objs s' = webhook_objs s
    \<and> deliveries s' = deliveries s \<and> delivery_objs s' = delivery_objs s
    \<and> (\<forall>x. getDeliveries s' x = getDeliveries s x)
    \<and> (\<forall>d. getDelivery s' d = getDelivery s d)"
proof -
  from assms have s': "s' = (if deleted then emit (webhook_deleted wid) else id)
      (s\<lparr>webhooks := Map_delete wid (webhooks s)\<rparr>)"
    and d: "deleted = Map_has (webhooks s) wid"
    by (auto simp add: deleteWebhook_def Let_def split: if_splits)
  have w: "webhooks s' = Map_delete wid (webhooks s)"
    and wo: "webhook_objs s' = webhook_objs s"
    and ds: "deliveries s' = deliveries s" and h: "delivery_objs s' = delivery_objs s"
    by (simp_all add: s' emit_def)
  have gd: "getDeliveries s' x = getDeliveries s x" for x
    unfolding getDeliveries_def ds h by (rule refl)
  have g: "getDelivery s' x = getDelivery s x" for x
    by (simp add: getDelivery_def ds)
  have f: "webhooks s' = filter (\<lambda>(k, w). k \<noteq> wid) (webhooks s)"
    by (simp add: w Map_delete_def)
  have "deleted = (getWebhook s wid \<noteq> None)"
    by (simp add: d getWebhook_def Map_has_iff)
  moreover have "getWebhook s' wid = None"
    by (simp add: getWebhook_def w Map_get_delete)
  moreover have "\<forall>k. k \<noteq> wid \<longrightarrow> getWebhook s' k = getWebhook s k"
    by (simp add: getWebhook_def w Map_get_delete)
  ultimately show ?thesis
    using f wo ds h gd g by blast
qed

theorem deleteWebhook_frame_witness:
  "fst (deleteWebhook ''0-4fzzzxjyl'' (snd example_triggered)) = True
   \<and> getWebhook (snd example_triggered) ''0-4fzzzxjyl'' = Some 0
   \<and> getWebhook (snd (deleteWebhook ''0-4fzzzxjyl'' (snd example_triggered))) ''0-4fzzzxjyl'' = None
   \<and> getDeliveries (snd example_triggered) (Some ''0-4fzzzxjyl'') = [0]
   \<and> getDeliveries (snd (deleteWebhook ''0-4fzzzxjyl'' (snd example_triggered))) (Some ''0-4fzzzxjyl'')
       = [0]
   \<and> delivery_objs (snd (deleteWebhook ''0-4fzzzxjyl'' (snd example_triggered)))
       = delivery_objs (snd example_triggered)"
proof -
  have g: "getWebhook (snd example_triggered) ''0-4fzzzxjyl'' = Some 0"
    by code_simp
  have l: "getDeliveries (snd example_triggered) (Some ''0-4fzzzxjyl'') = [0]"
    by code_simp
  show ?thesis
    using deleteWebhook_frame [OF surjective_pairing, of "''0-4fzzzxjyl''" "snd example_triggered"] g l
    by simp
qed

lemma registry_ok_iff:
  "registry_ok s \<longleftrightarrow>
     distinct (map fst (webhooks s)) \<and>
     (\<forall>(k, w) \<in> set (webhooks s). w < length (webhook_objs s) \<and> wh_id (webhook_objs s ! w) = k)"
  by (simp add: registry_ok_def list_all_iff)


lemma distinct_listWebhooks: "registry_ok s \<Longrightarrow> distinct (listWebhooks s)"
proof -
  assume ok: "registry_ok s"
  then have eq: "map (\<lambda>p. wh_id (webhook_objs s ! snd p)) (webhooks s) = map fst (webhooks s)"
    by (intro map_cong refl) (auto simp add: registry_ok_iff)
  from ok have d: "distinct (map fst (webhooks s))"
    by (simp add: registry_ok_iff)
  have "distinct (map (\<lambda>w. wh_id (webhook_objs s ! w)) (map snd (webhooks s)))"
    unfolding map_map comp_def eq by (rule d)
  then have "distinct (map snd (webhooks s))"
    by (simp only: distinct_map)
  then show ?thesis
    by (simp add: listWebhooks_def Map_values_def)
qed




subsection \<open>The dispatcher\<close>

lemma sendWebhook_create_eq:
  "sendWebhook_create e w event s =
     (length (delivery_objs s),
      s\<lparr>tick := tick s + 3,
        delivery_objs := delivery_objs s @
          [\<lparr>dl_id = fst (generateId e s), dl_webhookId = wh_id (webhook_objs s ! w),
            dl_eventId = ev_id event, dl_status = Pending, dl_attempts = 0,
            dl_responseStatus = None, dl_responseBody = None, dl_error = None,
            dl_createdAt = Date_now e (tick s + 2), dl_completedAt = None\<rparr>],
        deliveries := Map_set (fst (generateId e s)) (length (delivery_objs s)) (deliveries s)\<rparr>)"
  by (simp add: sendWebhook_create_def generateId_def new_Date_def Let_def)

lemma executeDelivery_request_fields:
  "delivery_objs (executeDelivery_request e w event s) = delivery_objs s"
  "webhook_objs (executeDelivery_request e w event s) = webhook_objs s"
  "webhooks (executeDelivery_request e w event s) = webhooks s"
  "deliveries (executeDelivery_request e w event s) = deliveries s"
  "tick (executeDelivery_request e w event s) = tick s + 2"
  "\<exists>req. trace (executeDelivery_request e w event s) = trace s @ [Fetch req]
      \<and> req_url req = wh_url (webhook_objs s ! w) \<and> req_method req = ''POST''"
  by (simp_all add: executeDelivery_request_def generateId_def Let_def)

lemma begin_attempt_fields:
  "delivery_objs (begin_attempt e w event d attempt s) =
     (delivery_objs s)[d := (delivery_objs s ! d)\<lparr>dl_attempts := attempt + 1\<rparr>]"
  "webhook_objs (begin_attempt e w event d attempt s) = webhook_objs s"
  "webhooks (begin_attempt e w event d attempt s) = webhooks s"
  "deliveries (begin_attempt e w event d attempt s) = deliveries s"
  "tick (begin_attempt e w event d attempt s) = tick s + 2"
  "\<exists>req. trace (begin_attempt e w event d attempt s) = trace s @ [Fetch req]
      \<and> req_url req = wh_url (webhook_objs s ! w) \<and> req_method req = ''POST''"
  using executeDelivery_request_fields(6)
    [of e w event "modify_delivery d (\<lambda>delivery. delivery\<lparr>dl_attempts := attempt + 1\<rparr>) s"]
  by (simp_all add: begin_attempt_def executeDelivery_request_fields modify_delivery_def)

lemma sendWebhook_start_fields:
  assumes "sendWebhook_start e w event s = (t, s1)"
  shows "t = \<lparr>tk_webhook = w, tk_event = event, tk_delivery = length (delivery_objs s),
               tk_attempt = 0, tk_wait = AwaitFetch\<rparr>"
    and "delivery_objs s1 = delivery_objs s @ [started e (webhook_objs s ! w) event s]"
    and "webhook_objs s1 = webhook_objs s"
    and "webhooks s1 = webhooks s"
    and "deliveries s1 = Map_set (fst (generateId e s)) (length (delivery_objs s)) (deliveries s)"
    and "\<exists>req. trace s1 = trace s @ [Fetch req] \<and> req_url req = wh_url (webhook_objs s ! w)"
proof -
  from assms have t: "t = \<lparr>tk_webhook = w, tk_event = event, tk_delivery = length (delivery_objs s),
               tk_attempt = 0, tk_wait = AwaitFetch\<rparr>"
    and s1: "s1 = begin_attempt e w event (length (delivery_objs s)) 0
                   (snd (sendWebhook_create e w event s))"
    by (auto simp add: sendWebhook_start_def sendWebhook_create_eq)
  show "t = \<lparr>tk_webhook = w, tk_event = event, tk_delivery = length (delivery_objs s),
               tk_attempt = 0, tk_wait = AwaitFetch\<rparr>" by (rule t)
  show "delivery_objs s1 = delivery_objs s @ [started e (webhook_objs s ! w) event s]"
    by (simp add: s1 begin_attempt_fields sendWebhook_create_eq started_def)
  show "webhook_objs s1 = webhook_objs s"
    by (simp add: s1 begin_attempt_fields sendWebhook_create_eq)
  show "webhooks s1 = webhooks s"
    by (simp add: s1 begin_attempt_fields sendWebhook_create_eq)
  show "deliveries s1 = Map_set (fst (generateId e s)) (length (delivery_objs s)) (deliveries s)"
    by (simp add: s1 begin_attempt_fields sendWebhook_create_eq)
  show "\<exists>req. trace s1 = trace s @ [Fetch req] \<and> req_url req = wh_url (webhook_objs s ! w)"
    using begin_attempt_fields(6) [of e w event "length (delivery_objs s)" 0
        "snd (sendWebhook_create e w event s)"]
    by (auto simp add: s1 sendWebhook_create_eq)
qed

lemma sendWebhook_map_fields:
  assumes "sendWebhook_map e event ws s = (ts, s')"
  shows "map tk_webhook ts = ws
    \<and> map tk_delivery ts = [length (delivery_objs s)..<length (delivery_objs s) + length ws]
    \<and> (\<forall>t \<in> set ts. tk_event t = event \<and> tk_attempt t = 0 \<and> tk_wait t = AwaitFetch)
    \<and> take (length (delivery_objs s)) (delivery_objs s') = delivery_objs s
    \<and> map dl_webhookId (drop (length (delivery_objs s)) (delivery_objs s'))
        = map (\<lambda>w. wh_id (webhook_objs s ! w)) ws
    \<and> (\<forall>d \<in> set (drop (length (delivery_objs s)) (delivery_objs s')).
          dl_eventId d = ev_id event \<and> dl_status d = Pending \<and> dl_attempts d = 1
          \<and> dl_completedAt d = None)
    \<and> webhooks s' = webhooks s
    \<and> webhook_objs s' = webhook_objs s"
  using assms
proof (induction ws arbitrary: s ts s')
  case Nil
  then show ?case by simp
next
  case (Cons w ws)
  let ?n = "length (delivery_objs s)"
  let ?d0 = "started e (webhook_objs s ! w) event s"
  obtain t s1 where st: "sendWebhook_start e w event s = (t, s1)"
    by (cases "sendWebhook_start e w event s")
  obtain ts1 s2 where mp: "sendWebhook_map e event ws s1 = (ts1, s2)"
    by (cases "sendWebhook_map e event ws s1")
  from Cons.prems st mp have ts: "ts = t # ts1" and s': "s' = s2"
    by simp_all
  note f = sendWebhook_start_fields [OF st]
  note ih = Cons.IH [OF mp]
  have len: "length (delivery_objs s1) = Suc ?n"
    by (simp add: f(2))
  from ih have hp: "take (Suc ?n) (delivery_objs s2) = delivery_objs s @ [?d0]"
    by (simp add: len f(2))
  have tk: "take ?n (delivery_objs s2) = delivery_objs s"
    using arg_cong [OF hp, of "take ?n"] by simp
  have lt: "?n < length (delivery_objs s2)"
    using arg_cong [OF hp, of length] by simp
  have "delivery_objs s2 ! ?n = ?d0"
    using arg_cong [OF hp, of "\<lambda>xs. xs ! ?n"] by simp
  then have dr: "drop ?n (delivery_objs s2) = ?d0 # drop (Suc ?n) (delivery_objs s2)"
    using Cons_nth_drop_Suc [OF lt] by simp
  have up: "map tk_delivery ts = [?n..<?n + length (w # ws)]"
  proof -
    from ih have "map tk_delivery ts1 = [Suc ?n..<Suc ?n + length ws]"
      by (simp only: len)
    then have "map tk_delivery ts = ?n # [Suc ?n..<Suc (?n + length ws)]"
      by (simp add: ts f(1))
    also have "\<dots> = [?n..<Suc (?n + length ws)]"
      by (rule upt_conv_Cons [symmetric]) simp
    finally show ?thesis by simp
  qed
  have tasks: "\<forall>t \<in> set ts. tk_event t = event \<and> tk_attempt t = 0 \<and> tk_wait t = AwaitFetch"
    using ih by (simp add: ts f(1))
  have ids: "map dl_webhookId (drop ?n (delivery_objs s')) = map (\<lambda>w. wh_id (webhook_objs s ! w)) (w # ws)"
    using ih by (simp add: s' dr len started_def f(3))
  have recs: "\<forall>d \<in> set (drop ?n (delivery_objs s')).
          dl_eventId d = ev_id event \<and> dl_status d = Pending \<and> dl_attempts d = 1
          \<and> dl_completedAt d = None"
    using ih by (simp add: s' dr len started_def)
  have "map tk_webhook ts = w # ws"
    using ih by (simp add: ts f(1))
  moreover have "webhooks s' = webhooks s"
    using ih by (simp add: s' f(4))
  moreover have "webhook_objs s' = webhook_objs s"
    using ih by (simp add: s' f(3))
  ultimately show ?case
    using up tasks ids recs tk by (simp only: s' simp_thms)
qed

lemma triggerEvent_eq:
  "triggerEvent e type data s =
     sendWebhook_map e
       \<lparr>ev_type = type, ev_data = data, ev_timestamp = Date_now e (tick s),
        ev_id = decimal (Date_now e (tick s + 1)) @ ''-'' @ Math_random36 e (tick s + 2)\<rparr>
       (filter (\<lambda>w. wh_active (webhook_objs s ! w) \<and> type \<in> set (wh_events (webhook_objs s ! w)))
          (listWebhooks s))
       (s\<lparr>tick := tick s + 3,
          trace := trace s @ [Emit (event_triggered
            \<lparr>ev_type = type, ev_data = data, ev_timestamp = Date_now e (tick s),
             ev_id = decimal (Date_now e (tick s + 1)) @ ''-'' @ Math_random36 e (tick s + 2)\<rparr>)]\<rparr>)"
  by (simp add: triggerEvent_def new_Date_def generateId_def emit_def Let_def listWebhooks_def
      numeral_3_eq_3)

text \<open>
  C10.  When no subscription in the registry is both active and subscribed to the type,
  \<open>triggerEvent\<close> starts no call of \<open>sendWebhook\<close>, so there is nothing it waits for, and it
  leaves the service as it was but for the notification \<open>event:triggered\<close> that it emits (and
  the three questions to the clock and the random number generator): the registry, the
  webhook objects, the delivery map and the delivery objects are unchanged.
\<close>

theorem triggerEvent_without_match:
  assumes "\<forall>w \<in> set (listWebhooks s).
             \<not> (wh_active (webhook_objs s ! w) \<and> type \<in> set (wh_events (webhook_objs s ! w)))"
  shows "triggerEvent e type data s =
           ([], s\<lparr>tick := tick s + 3,
                  trace := trace s @ [Emit (event_triggered
                    \<lparr>ev_type = type, ev_data = data, ev_timestamp = Date_now e (tick s),
                     ev_id = decimal (Date_now e (tick s + 1)) @ ''-''
                       @ Math_random36 e (tick s + 2)\<rparr>)]\<rparr>)
    \<and> webhooks (snd (triggerEvent e type data s)) = webhooks s
    \<and> webhook_objs (snd (triggerEvent e type data s)) = webhook_objs s
    \<and> deliveries (snd (triggerEvent e type data s)) = deliveries s
    \<and> delivery_objs (snd (triggerEvent e type data s)) = delivery_objs s"
proof -
  from assms
  have "filter (\<lambda>w. wh_active (webhook_objs s ! w) \<and> type \<in> set (wh_events (webhook_objs s ! w)))
          (listWebhooks s) = []"
    by (simp add: filter_empty_conv)
  then show ?thesis
    by (simp add: triggerEvent_eq)
qed

theorem triggerEvent_without_match_witness:
  "listWebhooks example_registered = [0]
   \<and> wh_events (webhook_objs example_registered ! 0) = [''payout'']
   \<and> fst (triggerEvent example_env ''refund'' JNull example_registered) = []
   \<and> webhooks (snd (triggerEvent example_env ''refund'' JNull example_registered))
        = webhooks example_registered
   \<and> deliveries (snd (triggerEvent example_env ''refund'' JNull example_registered))
        = deliveries example_registered
   \<and> delivery_objs (snd (triggerEvent example_env ''refund'' JNull example_registered))
        = delivery_objs example_registered"
proof -
  have h: "\<forall>w \<in> set (listWebhooks example_registered).
      \<not> (wh_active (webhook_objs example_registered ! w)
          \<and> ''refund'' \<in> set (wh_events (webhook_objs example_registered ! w)))"
    by code_simp
  have l: "listWebhooks example_registered = [0]"
    by code_simp
  have ev: "wh_events (webhook_objs example_registered ! 0) = [''payout'']"
    by code_simp
  show ?thesis
    using triggerEvent_without_match [OF h, of example_env JNull] l ev by simp
qed

lemma length_filter_eq_distinct:
  "distinct xs \<Longrightarrow> length (filter (\<lambda>x. x = w) (filter P xs)) = (if w \<in> set xs \<and> P w then 1 else 0)"
  by (induction xs) auto

text \<open>
  C5.  \<open>triggerEvent\<close> calls \<open>sendWebhook\<close> for the subscriptions of the registry that are
  active and subscribed to the type, in the order of the registry, and for no other: with the
  registry as the service keeps it, once for each such subscription and not at all for any
  other.  Every call makes one new delivery object, pending after its first attempt has
  begun and with the id of its subscription, and the delivery objects from before are
  untouched.
\<close>

theorem triggerEvent_fan_out:
  assumes "triggerEvent e type data s = (ts, s')"
  shows "map tk_webhook ts =
           filter (\<lambda>w. wh_active (webhook_objs s ! w) \<and> type \<in> set (wh_events (webhook_objs s ! w)))
             (listWebhooks s)
    \<and> map tk_delivery ts = [length (delivery_objs s)..<length (delivery_objs s) + length ts]
    \<and> length (delivery_objs s') = length (delivery_objs s) + length ts
    \<and> take (length (delivery_objs s)) (delivery_objs s') = delivery_objs s
    \<and> map dl_webhookId (drop (length (delivery_objs s)) (delivery_objs s'))
        = map (\<lambda>t. wh_id (webhook_objs s ! tk_webhook t)) ts
    \<and> (\<forall>d \<in> set (drop (length (delivery_objs s)) (delivery_objs s')).
          dl_status d = Pending \<and> dl_attempts d = 1)
    \<and> (registry_ok s \<longrightarrow>
         (\<forall>w \<in> set (listWebhooks s).
            length (filter (\<lambda>t. tk_webhook t = w) ts) =
              (if wh_active (webhook_objs s ! w) \<and> type \<in> set (wh_events (webhook_objs s ! w))
               then 1 else 0)))"
proof -
  let ?P = "\<lambda>w. wh_active (webhook_objs s ! w) \<and> type \<in> set (wh_events (webhook_objs s ! w))"
  let ?ms = "filter ?P (listWebhooks s)"
  let ?n = "length (delivery_objs s)"
  from assms obtain ev s0 where m: "sendWebhook_map e ev ?ms s0 = (ts, s')"
    and h0: "delivery_objs s0 = delivery_objs s" and w0: "webhooks s0 = webhooks s"
    and o0: "webhook_objs s0 = webhook_objs s"
    by (simp add: triggerEvent_eq)
  note f = sendWebhook_map_fields [OF m, unfolded h0 w0 o0]
  from f have tw: "map tk_webhook ts = ?ms" by simp
  have len: "length ts = length ?ms"
    using arg_cong [OF tw, of length] by simp
  from f have td: "map tk_delivery ts = [?n..<?n + length ts]"
    by (simp add: len)
  from f have tk: "take ?n (delivery_objs s') = delivery_objs s" by simp
  from f have ids: "map dl_webhookId (drop ?n (delivery_objs s'))
      = map (\<lambda>w. wh_id (webhook_objs s ! w)) ?ms" by simp
  have "map (\<lambda>t. wh_id (webhook_objs s ! tk_webhook t)) ts
      = map (\<lambda>w. wh_id (webhook_objs s ! w)) (map tk_webhook ts)"
    by (simp add: comp_def)
  then have ids': "map dl_webhookId (drop ?n (delivery_objs s'))
      = map (\<lambda>t. wh_id (webhook_objs s ! tk_webhook t)) ts"
    by (simp only: tw ids)
  have "?n \<le> length (delivery_objs s')"
    using arg_cong [OF tk, of length] by simp
  moreover have "length (delivery_objs s') - ?n = length ?ms"
    using arg_cong [OF ids, of length] by simp
  ultimately have hl: "length (delivery_objs s') = ?n + length ts"
    by (simp add: len)
  from f have recs: "\<forall>d \<in> set (drop ?n (delivery_objs s')). dl_status d = Pending \<and> dl_attempts d = 1"
    by simp
  have cnt: "length (filter (\<lambda>t. tk_webhook t = w) ts) = (if ?P w then 1 else 0)"
    if ok: "registry_ok s" and w: "w \<in> set (listWebhooks s)" for w
  proof -
    have "length (filter (\<lambda>t. tk_webhook t = w) ts) = length (filter (\<lambda>x. x = w) (map tk_webhook ts))"
      by (simp add: filter_map comp_def)
    also have "\<dots> = (if w \<in> set (listWebhooks s) \<and> ?P w then 1 else 0)"
      unfolding tw using distinct_listWebhooks [OF ok] by (rule length_filter_eq_distinct)
    finally show ?thesis using w by simp
  qed
  then have cnt': "registry_ok s \<longrightarrow>
         (\<forall>w \<in> set (listWebhooks s).
            length (filter (\<lambda>t. tk_webhook t = w) ts) = (if ?P w then 1 else 0))"
    by blast
  from tw td hl tk ids' recs cnt' show ?thesis
    by (intro conjI)
qed

theorem triggerEvent_fan_out_witness:
  "registry_ok example_registered
   \<and> listWebhooks example_registered = [0]
   \<and> delivery_objs example_registered = []
   \<and> map tk_webhook (fst example_triggered) = [0]
   \<and> map tk_delivery (fst example_triggered) = [0]
   \<and> map dl_webhookId (delivery_objs (snd example_triggered)) = [''0-4fzzzxjyl'']
   \<and> length (filter (\<lambda>t. tk_webhook t = 0) (fst example_triggered)) = 1"
proof -
  have ok: "registry_ok example_registered"
    by code_simp
  have l: "listWebhooks example_registered = [0]"
    by code_simp
  have h: "delivery_objs example_registered = []"
    by code_simp
  have m: "wh_active (webhook_objs example_registered ! 0)
      \<and> ''payout'' \<in> set (wh_events (webhook_objs example_registered ! 0))"
    by code_simp
  have i: "wh_id (webhook_objs example_registered ! 0) = ''0-4fzzzxjyl''"
    by code_simp
  have r: "triggerEvent example_env ''payout'' JNull example_registered
      = (fst example_triggered, snd example_triggered)"
    by (simp add: example_triggered_def)
  note f = triggerEvent_fan_out [OF r]
  from f l m have a: "map tk_webhook (fst example_triggered) = [0]"
    by simp
  have n: "length (fst example_triggered) = 1"
    using arg_cong [OF a, of length] by simp
  from f h n have b: "map tk_delivery (fst example_triggered) = [0]"
    by simp
  from f have "map dl_webhookId (drop (length (delivery_objs example_registered))
        (delivery_objs (snd example_triggered)))
      = map (\<lambda>t. wh_id (webhook_objs example_registered ! tk_webhook t)) (fst example_triggered)"
    by blast
  moreover have "map (\<lambda>t. wh_id (webhook_objs example_registered ! tk_webhook t)) (fst example_triggered)
      = map (\<lambda>w. wh_id (webhook_objs example_registered ! w)) (map tk_webhook (fst example_triggered))"
    by (simp add: comp_def)
  ultimately have c: "map dl_webhookId (delivery_objs (snd example_triggered)) = [''0-4fzzzxjyl'']"
    by (simp add: a i h)
  from f ok l m have d: "length (filter (\<lambda>t. tk_webhook t = 0) (fst example_triggered)) = 1"
    by simp
  from ok l h a b c d show ?thesis
    by (intro conjI)
qed

subsection \<open>One delivery\<close>

declare sendWebhook_loop.simps [simp del]

lemma begin_attempt_at:
  assumes "d < length (delivery_objs s)"
  shows "\<exists>req. length (delivery_objs (begin_attempt e w event d attempt s)) = length (delivery_objs s)
    \<and> delivery_objs (begin_attempt e w event d attempt s) ! d
         = (delivery_objs s ! d)\<lparr>dl_attempts := attempt + 1\<rparr>
    \<and> trace (begin_attempt e w event d attempt s) = trace s @ [Fetch req]
    \<and> webhook_objs (begin_attempt e w event d attempt s) = webhook_objs s"
proof -
  from begin_attempt_fields(6) [of e w event d attempt s] obtain req
    where "trace (begin_attempt e w event d attempt s) = trace s @ [Fetch req]"
    by blast
  with assms show ?thesis
    by (simp add: begin_attempt_fields(1,2))
qed

lemma end_attempt_success:
  assumes "executeDelivery_result res = Inr (status, body)" and "d < length (delivery_objs s)"
  shows "\<exists>s'. end_attempt e w event d attempt res s = (Return, s')
    \<and> length (delivery_objs s') = length (delivery_objs s)
    \<and> delivery_objs s' ! d
         = (delivery_objs s ! d)\<lparr>dl_status := Success, dl_responseStatus := Some status,
                                   dl_completedAt := Some (Date_now e (tick s))\<rparr>
    \<and> trace s' = trace s @ [Emit (delivery_success (delivery_objs s' ! d) (webhook_objs s ! w) event)]
    \<and> webhook_objs s' = webhook_objs s"
  using assms
  by (simp add: end_attempt_def new_Date_def modify_delivery_def emit_def Let_def)

lemma end_attempt_retry:
  assumes "executeDelivery_result res = Inl msg" and "d < length (delivery_objs s)"
    and "attempt < maxRetries"
  shows "\<exists>s'. end_attempt e w event d attempt res s = (Continue, s')
    \<and> length (delivery_objs s') = length (delivery_objs s)
    \<and> delivery_objs s' ! d = (delivery_objs s ! d)\<lparr>dl_error := Some msg\<rparr>
    \<and> trace s' = trace s @ [Delay (retryDelays ! attempt)]
    \<and> webhook_objs s' = webhook_objs s"
  using assms
  by (simp add: end_attempt_def modify_delivery_def delay_def Let_def)


lemma loop_success:
  assumes "attempt \<le> maxRetries"
    and "executeDelivery_result (results attempt) = Inr (status, body)"
    and "d < length (delivery_objs s)"
  shows "\<exists>req now.
      length (delivery_objs (sendWebhook_loop e results w event d attempt s)) = length (delivery_objs s)
    \<and> delivery_objs (sendWebhook_loop e results w event d attempt s) ! d
         = (delivery_objs s ! d)\<lparr>dl_attempts := attempt + 1, dl_status := Success,
                                   dl_responseStatus := Some status, dl_completedAt := Some now\<rparr>
    \<and> trace (sendWebhook_loop e results w event d attempt s)
         = trace s @ [Fetch req,
             Emit (delivery_success (delivery_objs (sendWebhook_loop e results w event d attempt s) ! d)
                     (webhook_objs s ! w) event)]"
proof -
  let ?b = "begin_attempt e w event d attempt s"
  from begin_attempt_at [OF assms(3), of e w event attempt] obtain req
    where b: "length (delivery_objs ?b) = length (delivery_objs s)"
      "delivery_objs ?b ! d = (delivery_objs s ! d)\<lparr>dl_attempts := attempt + 1\<rparr>"
      "trace ?b = trace s @ [Fetch req]" "webhook_objs ?b = webhook_objs s"
    by blast
  from assms(3) b(1) have "d < length (delivery_objs ?b)" by simp
  from end_attempt_success [OF assms(2) this, of e w event attempt] obtain s'
    where en: "end_attempt e w event d attempt (results attempt) ?b = (Return, s')"
      "length (delivery_objs s') = length (delivery_objs ?b)"
      "delivery_objs s' ! d = (delivery_objs ?b ! d)\<lparr>dl_status := Success,
          dl_responseStatus := Some status, dl_completedAt := Some (Date_now e (tick ?b))\<rparr>"
      "trace s' = trace ?b @ [Emit (delivery_success (delivery_objs s' ! d) (webhook_objs ?b ! w) event)]"
    by blast
  have l: "sendWebhook_loop e results w event d attempt s = s'"
    by (subst sendWebhook_loop.simps) (simp add: assms(1) en(1))
  show ?thesis
    unfolding l using b en
    by (intro exI [of _ req] exI [of _ "Date_now e (tick ?b)"]) simp
qed

lemma loop_retry:
  assumes "attempt < maxRetries"
    and "executeDelivery_result (results attempt) = Inl msg"
    and "d < length (delivery_objs s)"
  shows "\<exists>req s'.
      sendWebhook_loop e results w event d attempt s
        = sendWebhook_loop e results w event d (attempt + 1) s'
    \<and> length (delivery_objs s') = length (delivery_objs s)
    \<and> delivery_objs s' ! d = (delivery_objs s ! d)\<lparr>dl_attempts := attempt + 1, dl_error := Some msg\<rparr>
    \<and> trace s' = trace s @ [Fetch req, Delay (retryDelays ! attempt)]
    \<and> webhook_objs s' = webhook_objs s"
proof -
  let ?b = "begin_attempt e w event d attempt s"
  from begin_attempt_at [OF assms(3), of e w event attempt] obtain req
    where b: "length (delivery_objs ?b) = length (delivery_objs s)"
      "delivery_objs ?b ! d = (delivery_objs s ! d)\<lparr>dl_attempts := attempt + 1\<rparr>"
      "trace ?b = trace s @ [Fetch req]" "webhook_objs ?b = webhook_objs s"
    by blast
  from assms(3) b(1) have "d < length (delivery_objs ?b)" by simp
  from end_attempt_retry [OF assms(2) this assms(1), of e w event] obtain s'
    where en: "end_attempt e w event d attempt (results attempt) ?b = (Continue, s')"
      "length (delivery_objs s') = length (delivery_objs ?b)"
      "delivery_objs s' ! d = (delivery_objs ?b ! d)\<lparr>dl_error := Some msg\<rparr>"
      "trace s' = trace ?b @ [Delay (retryDelays ! attempt)]"
      "webhook_objs s' = webhook_objs ?b"
    by blast
  from assms(1) have "attempt \<le> maxRetries" by simp
  then have l: "sendWebhook_loop e results w event d attempt s
      = sendWebhook_loop e results w event d (attempt + 1) s'"
    by (subst sendWebhook_loop.simps) (simp add: en(1))
  show ?thesis
    using l b en by (intro exI [of _ req] exI [of _ s']) simp
qed


lemma sendWebhook_eq:
  "sendWebhook e results w event s =
     (length (delivery_objs s),
      sendWebhook_loop e results w event (length (delivery_objs s)) 0
        (snd (sendWebhook_create e w event s)))"
  by (simp add: sendWebhook_def sendWebhook_create_eq)

lemma sendWebhook_create_at:
  "length (delivery_objs (snd (sendWebhook_create e w event s))) = Suc (length (delivery_objs s))"
  "delivery_objs (snd (sendWebhook_create e w event s)) ! length (delivery_objs s)
     = \<lparr>dl_id = fst (generateId e s), dl_webhookId = wh_id (webhook_objs s ! w),
        dl_eventId = ev_id event, dl_status = Pending, dl_attempts = 0,
        dl_responseStatus = None, dl_responseBody = None, dl_error = None,
        dl_createdAt = Date_now e (tick s + 2), dl_completedAt = None\<rparr>"
  "trace (snd (sendWebhook_create e w event s)) = trace s"
  "webhook_objs (snd (sendWebhook_create e w event s)) = webhook_objs s"
  by (simp_all add: sendWebhook_create_eq)




lemma decimal_500: "decimal 500 = ''500''"
  by (simp add: decimal.simps)



lemma loop_until_success:
  assumes "k \<le> maxRetries" and "executeDelivery_result (results k) = Inr (status, body)"
  shows "a \<le> k \<Longrightarrow> \<forall>j. a \<le> j \<and> j < k \<longrightarrow> isl (executeDelivery_result (results j)) \<Longrightarrow>
     d < length (delivery_objs s) \<Longrightarrow>
     dl_status (delivery_objs (sendWebhook_loop e results w event d a s) ! d) = Success
     \<and> dl_attempts (delivery_objs (sendWebhook_loop e results w event d a s) ! d) = k + 1
     \<and> dl_responseStatus (delivery_objs (sendWebhook_loop e results w event d a s) ! d) = Some status
     \<and> dl_completedAt (delivery_objs (sendWebhook_loop e results w event d a s) ! d) \<noteq> None
     \<and> dl_error (delivery_objs (sendWebhook_loop e results w event d a s) ! d)
         = (if k = a then dl_error (delivery_objs s ! d)
            else Some (projl (executeDelivery_result (results (k - 1)))))
     \<and> last (trace (sendWebhook_loop e results w event d a s))
         = Emit (delivery_success (delivery_objs (sendWebhook_loop e results w event d a s) ! d)
                   (webhook_objs s ! w) event)"
proof (induction "k - a" arbitrary: a s)
  case 0
  then have ak: "a = k" by simp
  from loop_success [where attempt = k and results = results and e = e and w = w and event = event,
      OF assms(1) assms(2) "0.prems"(3)]
  obtain req now where
    "delivery_objs (sendWebhook_loop e results w event d k s) ! d
         = (delivery_objs s ! d)\<lparr>dl_attempts := k + 1, dl_status := Success,
                                   dl_responseStatus := Some status, dl_completedAt := Some now\<rparr>"
    "trace (sendWebhook_loop e results w event d k s)
         = trace s @ [Fetch req,
             Emit (delivery_success (delivery_objs (sendWebhook_loop e results w event d k s) ! d)
                     (webhook_objs s ! w) event)]"
    by blast
  then show ?case
    unfolding ak by simp
next
  case (Suc n)
  from Suc.hyps(2) have lt: "a < k" by simp
  with assms(1) have am: "a < maxRetries" by simp
  from Suc.prems(2) lt obtain msg where msg: "executeDelivery_result (results a) = Inl msg"
    by (auto simp add: isl_def)
  from loop_retry [where attempt = a and results = results and e = e and w = w and event = event,
      OF am msg Suc.prems(3)]
  obtain req s1 where
    eq: "sendWebhook_loop e results w event d a s = sendWebhook_loop e results w event d (a + 1) s1"
    and len: "length (delivery_objs s1) = length (delivery_objs s)"
    and obj: "delivery_objs s1 ! d = (delivery_objs s ! d)\<lparr>dl_attempts := a + 1, dl_error := Some msg\<rparr>"
    and wo: "webhook_objs s1 = webhook_objs s"
    by blast
  from Suc.hyps(2) have n: "n = k - (a + 1)" by simp
  from lt have le: "a + 1 \<le> k" by simp
  from Suc.prems(2) have fl: "\<forall>j. a + 1 \<le> j \<and> j < k \<longrightarrow> isl (executeDelivery_result (results j))"
    by simp
  from Suc.prems(3) len have d1: "d < length (delivery_objs s1)" by simp
  note ih = Suc.hyps(1) [OF n le fl d1]
  have er: "(if k = a + 1 then dl_error (delivery_objs s1 ! d)
            else Some (projl (executeDelivery_result (results (k - 1)))))
      = Some (projl (executeDelivery_result (results (k - 1))))"
    by (simp add: obj msg)
  from lt have ne: "k \<noteq> a" by simp
  from ih show ?case
    unfolding eq er wo by (simp only: ne if_False simp_thms)
qed

lemma sendWebhook_until_success:
  assumes "k \<le> 3"
    and "\<forall>j < k. isl (executeDelivery_result (results j))"
    and "executeDelivery_result (results k) = Inr (status, body)"
    and "sendWebhook e results w event s = (d, s')"
  shows "dl_status (delivery_objs s' ! d) = Success
    \<and> dl_attempts (delivery_objs s' ! d) = k + 1
    \<and> dl_responseStatus (delivery_objs s' ! d) = Some status
    \<and> dl_completedAt (delivery_objs s' ! d) \<noteq> None
    \<and> (k = 0 \<longrightarrow> dl_error (delivery_objs s' ! d) = None)
    \<and> (0 < k \<longrightarrow> (\<exists>msg. executeDelivery_result (results (k - 1)) = Inl msg
                       \<and> dl_error (delivery_objs s' ! d) = Some msg))
    \<and> last (trace s')
        = Emit (delivery_success (delivery_objs s' ! d) (webhook_objs s ! w) event)"
proof -
  let ?d = "length (delivery_objs s)"
  let ?s0 = "snd (sendWebhook_create e w event s)"
  from assms(4) have d: "d = ?d" and s': "s' = sendWebhook_loop e results w event ?d 0 ?s0"
    by (auto simp add: sendWebhook_eq)
  note c = sendWebhook_create_at [of e w event s]
  have l0: "?d < length (delivery_objs ?s0)" by (simp add: c(1))
  from assms(1) have km: "k \<le> maxRetries" by (simp add: maxRetries_def)
  from assms(2) have fl: "\<forall>j. 0 \<le> j \<and> j < k \<longrightarrow> isl (executeDelivery_result (results j))"
    by simp
  have z: "(0::nat) \<le> k" by simp
  note r = loop_until_success [OF km assms(3) z fl l0, of e w event, folded s', unfolded c(4)]
  have e0: "dl_error (delivery_objs ?s0 ! ?d) = None"
    by (simp add: c(2))
  have pr: "\<exists>msg. executeDelivery_result (results (k - 1)) = Inl msg
      \<and> Some (projl (executeDelivery_result (results (k - 1)))) = Some msg" if "0 < k"
  proof -
    from that assms(2) have "isl (executeDelivery_result (results (k - 1)))" by simp
    then show ?thesis by (auto simp add: isl_def)
  qed
  from r have 1: "dl_status (delivery_objs s' ! d) = Success"
    and 2: "dl_attempts (delivery_objs s' ! d) = k + 1"
    and 3: "dl_responseStatus (delivery_objs s' ! d) = Some status"
    and 4: "dl_completedAt (delivery_objs s' ! d) \<noteq> None"
    and 5: "dl_error (delivery_objs s' ! d)
         = (if k = 0 then dl_error (delivery_objs ?s0 ! ?d)
            else Some (projl (executeDelivery_result (results (k - 1)))))"
    and 6: "last (trace s')
        = Emit (delivery_success (delivery_objs s' ! d) (webhook_objs s ! w) event)"
    unfolding d by blast+
  from 5 e0 have 7: "k = 0 \<longrightarrow> dl_error (delivery_objs s' ! d) = None"
    by simp
  from 5 pr have 8: "0 < k \<longrightarrow> (\<exists>msg. executeDelivery_result (results (k - 1)) = Inl msg
                       \<and> dl_error (delivery_objs s' ! d) = Some msg)"
    by simp
  from 1 2 3 4 7 8 6 show ?thesis
    by (intro conjI)
qed

text \<open>
  C7.  When the attempts of a delivery fail until one of them, the fourth at the latest,
  receives a response with a status from 200 to 299, \<open>sendWebhook\<close> stops there: it emits
  \<open>delivery:success\<close> as its last effect and returns.  The record has the status success, as
  many attempts as were made, the status of the response and a completed timestamp.  Its
  error is the message of the last failed attempt before the success, which nothing clears;
  the record has no error only if the first attempt was the successful one.
\<close>

theorem sendWebhook_succeeds_after_failures:
  assumes "k \<le> 3"
    and "\<forall>j < k. isl (executeDelivery_result (results j))"
    and "executeDelivery_result (results k) = Inr (status, body)"
    and "sendWebhook e results w event s = (d, s')"
  shows "dl_status (delivery_objs s' ! d) = Success
    \<and> dl_attempts (delivery_objs s' ! d) = k + 1
    \<and> dl_responseStatus (delivery_objs s' ! d) = Some status
    \<and> dl_completedAt (delivery_objs s' ! d) \<noteq> None
    \<and> (k = 0 \<longrightarrow> dl_error (delivery_objs s' ! d) = None)
    \<and> (0 < k \<longrightarrow> (\<exists>msg. executeDelivery_result (results (k - 1)) = Inl msg
                       \<and> dl_error (delivery_objs s' ! d) = Some msg))
    \<and> last (trace s')
        = Emit (delivery_success (delivery_objs s' ! d) (webhook_objs s ! w) event)"
  using assms by (rule sendWebhook_until_success)

lemma fails_once_results:
  "executeDelivery_result (fails_once 0) = Inl ''HTTP 500: boom''"
  "executeDelivery_result (fails_once 1) = Inr (200, ''ok'')"
  "executeDelivery_result (fails_once (Suc 0)) = Inr (200, ''ok'')"
  by (simp_all add: fails_once_def executeDelivery_result_def decimal_500)

theorem sendWebhook_succeeds_after_failures_witness:
  "executeDelivery_result (fails_once 0) = Inl ''HTTP 500: boom''
   \<and> executeDelivery_result (fails_once 1) = Inr (200, ''ok'')
   \<and> fst (sendWebhook example_env fails_once 0 example_event example_registered) = 0
   \<and> dl_status (delivery_objs
        (snd (sendWebhook example_env fails_once 0 example_event example_registered)) ! 0) = Success
   \<and> dl_attempts (delivery_objs
        (snd (sendWebhook example_env fails_once 0 example_event example_registered)) ! 0) = 2
   \<and> dl_responseStatus (delivery_objs
        (snd (sendWebhook example_env fails_once 0 example_event example_registered)) ! 0) = Some 200
   \<and> dl_error (delivery_objs
        (snd (sendWebhook example_env fails_once 0 example_event example_registered)) ! 0)
        = Some ''HTTP 500: boom''"
proof -
  have k: "(1::nat) \<le> 3" by simp
  have h: "\<forall>j < 1. isl (executeDelivery_result (fails_once j))"
    by (simp add: fails_once_results)
  have "length (delivery_objs example_registered) = 0"
    by code_simp
  then have d: "fst (sendWebhook example_env fails_once 0 example_event example_registered) = 0"
    by (simp add: sendWebhook_eq)
  show ?thesis
    using sendWebhook_succeeds_after_failures [OF k h fails_once_results(2) surjective_pairing,
        of example_env 0 example_event example_registered]
    by (simp add: d fails_once_results)
qed

theorem success_record_keeps_error:
  "dl_status (delivery_objs
      (snd (sendWebhook example_env fails_once 0 example_event example_registered)) ! 0) = Success
   \<and> dl_error (delivery_objs
      (snd (sendWebhook example_env fails_once 0 example_event example_registered)) ! 0)
      = Some ''HTTP 500: boom''"
proof -
  have k: "(1::nat) \<le> 3" by simp
  have h: "\<forall>j < 1. isl (executeDelivery_result (fails_once j))"
    by (simp add: fails_once_results)
  have "length (delivery_objs example_registered) = 0"
    by code_simp
  then have d: "fst (sendWebhook example_env fails_once 0 example_event example_registered) = 0"
    by (simp add: sendWebhook_eq)
  show ?thesis
    using sendWebhook_until_success [OF k h fails_once_results(2) surjective_pairing,
        of example_env 0 example_event example_registered]
    by (simp add: d fails_once_results)
qed

end
